theory Spec2Isabelle
  imports Complex_Main
begin

section \<open>JavaScript numbers\<close>

text \<open>
  Every quantity of \<^verbatim>\<open>src/vumeter.js\<close> is a JavaScript number. The model keeps the three
  special values apart and takes the finite ones as exact reals: \<open>Fin r\<close> is the number
  \<open>r\<close>. Rounding, overflow of finite results and the sign of zero are outside the model
  (every zero is \<open>+0\<close>); the results of the operations on \<open>NaN\<close> and the infinities
  follow IEEE 754 as ECMAScript prescribes it. The integers up to \<open>2 ^ 53\<close> in magnitude are
  the range in which a double counts exactly.
\<close>

datatype number = NaN | NegInfinity | Fin real | Infinity

fun is_fin :: "number \<Rightarrow> bool" where
  "is_fin (Fin r) = True"
| "is_fin _ = False"

fun real_of :: "number \<Rightarrow> real" where
  "real_of (Fin r) = r"
| "real_of _ = 0"

text \<open>The infinity with the sign of \<open>s\<close>; \<open>NaN\<close> for \<open>s = 0\<close> (as in \<open>0 * Infinity\<close>).\<close>

definition signed_inf :: "real \<Rightarrow> number" where
  "signed_inf s = (if 0 < s then Infinity else if s < 0 then NegInfinity else NaN)"

instantiation number :: "{uminus, plus, minus, times, inverse, ord}"
begin

fun uminus_number :: "number \<Rightarrow> number" where
  "- NaN = NaN"
| "- NegInfinity = Infinity"
| "- (Fin a) = Fin (- a)"
| "- Infinity = NegInfinity"

fun plus_number :: "number \<Rightarrow> number \<Rightarrow> number" where
  "NaN + _ = NaN"
| "_ + NaN = NaN"
| "Fin a + Fin b = Fin (a + b)"
| "Infinity + NegInfinity = NaN"
| "NegInfinity + Infinity = NaN"
| "Infinity + _ = Infinity"
| "_ + Infinity = Infinity"
| "NegInfinity + _ = NegInfinity"
| "_ + NegInfinity = NegInfinity"

definition minus_number :: "number \<Rightarrow> number \<Rightarrow> number" where
  "minus_number a b = a + (- b)"

fun times_number :: "number \<Rightarrow> number \<Rightarrow> number" where
  "NaN * _ = NaN"
| "_ * NaN = NaN"
| "Fin a * Fin b = Fin (a * b)"
| "Fin a * Infinity = signed_inf a"
| "Fin a * NegInfinity = signed_inf (- a)"
| "Infinity * Fin b = signed_inf b"
| "NegInfinity * Fin b = signed_inf (- b)"
| "Infinity * Infinity = Infinity"
| "Infinity * NegInfinity = NegInfinity"
| "NegInfinity * Infinity = NegInfinity"
| "NegInfinity * NegInfinity = Infinity"

fun divide_number :: "number \<Rightarrow> number \<Rightarrow> number" where
  "divide_number NaN _ = NaN"
| "divide_number _ NaN = NaN"
| "divide_number (Fin a) (Fin b) = (if b = 0 then signed_inf a else Fin (a / b))"
| "divide_number (Fin a) Infinity = Fin 0"
| "divide_number (Fin a) NegInfinity = Fin 0"
| "divide_number Infinity (Fin b) = (if b < 0 then NegInfinity else Infinity)"
| "divide_number NegInfinity (Fin b) = (if b < 0 then Infinity else NegInfinity)"
| "divide_number Infinity _ = NaN"
| "divide_number NegInfinity _ = NaN"

definition inverse_number :: "number \<Rightarrow> number" where
  "inverse_number a = divide (Fin 1) a"

text \<open>
  The comparisons of the source: \<open>a <= b\<close> and \<open>a < b\<close>, false as soon as one side is
  \<open>NaN\<close>. The source's \<open>a >= b\<close> and \<open>a > b\<close> are \<open>b \<le> a\<close> and \<open>b < a\<close>.
\<close>

fun less_eq_number :: "number \<Rightarrow> number \<Rightarrow> bool" where
  "NaN \<le> _ = False"
| "_ \<le> NaN = False"
| "Fin a \<le> Fin b = (a \<le> b)"
| "NegInfinity \<le> _ = True"
| "_ \<le> Infinity = True"
| "Fin _ \<le> NegInfinity = False"
| "Infinity \<le> _ = False"

fun less_number :: "number \<Rightarrow> number \<Rightarrow> bool" where
  "NaN < _ = False"
| "_ < NaN = False"
| "Fin a < Fin b = (a < b)"
| "NegInfinity < NegInfinity = False"
| "Infinity < _ = False"
| "NegInfinity < _ = True"
| "Fin _ < Infinity = True"
| "Fin _ < NegInfinity = False"

instance ..

end

text \<open>\<^verbatim>\<open>Math.min\<close>, \<^verbatim>\<open>Math.max\<close> (\<open>NaN\<close> as soon as one argument is), \<^verbatim>\<open>Math.abs\<close>,
  \<^verbatim>\<open>Math.exp\<close>, \<^verbatim>\<open>Math.ceil\<close> and \<^verbatim>\<open>Math.log10\<close>.\<close>

definition Math_min :: "number \<Rightarrow> number \<Rightarrow> number" where
  "Math_min a b = (if a = NaN \<or> b = NaN then NaN else if a \<le> b then a else b)"

definition Math_max :: "number \<Rightarrow> number \<Rightarrow> number" where
  "Math_max a b = (if a = NaN \<or> b = NaN then NaN else if a \<le> b then b else a)"

text \<open>The spread calls \<^verbatim>\<open>Math.min(...dbs)\<close> and \<^verbatim>\<open>Math.max(...dbs)\<close>; with no argument
  they are \<open>Infinity\<close> and \<open>-Infinity\<close>.\<close>

definition Math_min_list :: "number list \<Rightarrow> number" where
  "Math_min_list xs = foldr Math_min xs Infinity"

definition Math_max_list :: "number list \<Rightarrow> number" where
  "Math_max_list xs = foldr Math_max xs NegInfinity"

fun Math_abs :: "number \<Rightarrow> number" where
  "Math_abs NaN = NaN"
| "Math_abs NegInfinity = Infinity"
| "Math_abs (Fin a) = Fin \<bar>a\<bar>"
| "Math_abs Infinity = Infinity"

fun Math_exp :: "number \<Rightarrow> number" where
  "Math_exp NaN = NaN"
| "Math_exp NegInfinity = Fin 0"
| "Math_exp (Fin a) = Fin (exp a)"
| "Math_exp Infinity = Infinity"

fun Math_ceil :: "number \<Rightarrow> number" where
  "Math_ceil (Fin a) = Fin (of_int \<lceil>a\<rceil>)"
| "Math_ceil x = x"

fun Math_log10 :: "number \<Rightarrow> number" where
  "Math_log10 (Fin a) =
     (if a < 0 then NaN else if a = 0 then NegInfinity else Fin (log 10 a))"
| "Math_log10 Infinity = Infinity"
| "Math_log10 _ = NaN"


section \<open>Configuration and state of a meter\<close>

text \<open>
  The options object (\<^verbatim>\<open>VUMeter.DEFAULTS\<close> merged with the caller's options). The keys
  that only style the drawing (\<^verbatim>\<open>width\<close>, \<^verbatim>\<open>height\<close>, \<^verbatim>\<open>showLight\<close>, \<^verbatim>\<open>peakColor\<close>) are left
  out. \<open>onClip\<close> and \<open>onClipRelease\<close> say whether the option holds a function
  (\<^verbatim>\<open>typeof ... === 'function'\<close>); what the function does is the caller's.
\<close>

record vu_options =
  dbMin :: number
  dbMax :: number
  noiseFloor :: number
  ballistics :: bool
  attackTime :: number
  releaseTime :: number
  label :: string
  brand :: string
  onClip :: bool
  onClipRelease :: bool
  clipThreshold :: number
  autoRange :: bool
  autoRangeWindow :: number
  autoRangeMargin :: number
  showPeak :: bool
  peakAttackTime :: number
  peakHoldTime :: number
  peakDecayTime :: number
  scalePreset :: "string option"

definition DEFAULTS :: vu_options where
  "DEFAULTS = \<lparr> dbMin = Fin (- 20), dbMax = Fin 3, noiseFloor = Fin (- 20),
     ballistics = True, attackTime = Fin 300, releaseTime = Fin 300,
     label = ''VU'', brand = ''MODEL 300'', onClip = False, onClipRelease = False,
     clipThreshold = Fin 0, autoRange = False, autoRangeWindow = Fin 30,
     autoRangeMargin = Fin 2, showPeak = False, peakAttackTime = Fin 50,
     peakHoldTime = Fin 2000, peakDecayTime = Fin 1500, scalePreset = None \<rparr>"

text \<open>One key of a partial options object, with its value; the object is the list of its
  keys. \<^verbatim>\<open>Object.assign\<close> copies them in order.\<close>

datatype opt =
    DbMin number | DbMax number | NoiseFloor number | Ballistics bool
  | AttackTime number | ReleaseTime number | Label string | Brand string
  | OnClip bool | OnClipRelease bool | ClipThreshold number | AutoRange bool
  | AutoRangeWindow number | AutoRangeMargin number | ShowPeak bool
  | PeakAttackTime number | PeakHoldTime number | PeakDecayTime number
  | ScalePreset "string option"

fun assign_key :: "opt \<Rightarrow> vu_options \<Rightarrow> vu_options" where
  "assign_key (DbMin v) os = os\<lparr>dbMin := v\<rparr>"
| "assign_key (DbMax v) os = os\<lparr>dbMax := v\<rparr>"
| "assign_key (NoiseFloor v) os = os\<lparr>noiseFloor := v\<rparr>"
| "assign_key (Ballistics v) os = os\<lparr>ballistics := v\<rparr>"
| "assign_key (AttackTime v) os = os\<lparr>attackTime := v\<rparr>"
| "assign_key (ReleaseTime v) os = os\<lparr>releaseTime := v\<rparr>"
| "assign_key (Label v) os = os\<lparr>label := v\<rparr>"
| "assign_key (Brand v) os = os\<lparr>brand := v\<rparr>"
| "assign_key (OnClip v) os = os\<lparr>onClip := v\<rparr>"
| "assign_key (OnClipRelease v) os = os\<lparr>onClipRelease := v\<rparr>"
| "assign_key (ClipThreshold v) os = os\<lparr>clipThreshold := v\<rparr>"
| "assign_key (AutoRange v) os = os\<lparr>autoRange := v\<rparr>"
| "assign_key (AutoRangeWindow v) os = os\<lparr>autoRangeWindow := v\<rparr>"
| "assign_key (AutoRangeMargin v) os = os\<lparr>autoRangeMargin := v\<rparr>"
| "assign_key (ShowPeak v) os = os\<lparr>showPeak := v\<rparr>"
| "assign_key (PeakAttackTime v) os = os\<lparr>peakAttackTime := v\<rparr>"
| "assign_key (PeakHoldTime v) os = os\<lparr>peakHoldTime := v\<rparr>"
| "assign_key (PeakDecayTime v) os = os\<lparr>peakDecayTime := v\<rparr>"
| "assign_key (ScalePreset v) os = os\<lparr>scalePreset := v\<rparr>"

definition Object_assign :: "vu_options \<Rightarrow> opt list \<Rightarrow> vu_options" where
  "Object_assign os opts = fold assign_key opts os"

datatype clip_event = EnterClip | ExitClip

text \<open>
  The instance fields, without their leading underscore. A range sample \<^verbatim>\<open>{ db, t }\<close> is
  the pair \<open>(db, t)\<close>; \<^verbatim>\<open>Date.now()\<close> and the frame timestamps are finite, hence reals.
  \<open>lastTime = None\<close> is \<^verbatim>\<open>null\<close>. \<open>peakNeedle\<close> says whether the peak needle element exists.
  Three fields stand for what the instance does to the outside: \<open>scaleGroup\<close> holds the
  positions of the tick lines that the scale group contains, \<open>rebuilds\<close> counts the calls
  of \<^verbatim>\<open>_rebuildScale\<close>, and \<open>notified\<close> lists the calls of the two clip callbacks, oldest
  first. The rest of the drawing (attributes, arcs, labels, needles) has no effect on the
  fields and is not modelled.
\<close>

record vumeter =
  options :: vu_options
  initDbMin :: number
  initDbMax :: number
  targetDb :: number
  currentDb :: number
  clipping :: bool
  lastTime :: "real option"
  rangeSamples :: "(number \<times> real) list"
  autoRangeTargetMin :: number
  autoRangeTargetMax :: number
  lastRebuiltDbMin :: number
  lastRebuiltDbMax :: number
  peakDb :: number
  peakVisualDb :: number
  peakHoldUntil :: number
  peakDecaying :: bool
  peakNeedle :: bool
  scaleGroup :: "number list"
  rebuilds :: nat
  notified :: "clip_event list"

section \<open>Building the scale\<close>

text \<open>
  The two tick loops of \<^verbatim>\<open>_buildDefaultScale\<close> and \<^verbatim>\<open>_buildSmeterScale\<close>,
  \<^verbatim>\<open>for (let d = start; d <= dbMax; d += step) { if (majorSet.has(d)) continue; ... }\<close>
  (the default scale has step 1 and skips nothing). The loop does not end when \<open>d\<close> is
  \<open>-Infinity\<close>, so it is a partial function: \<open>None\<close> is a call that never returns.
  The counter is followed over the exact reals. That is the counter of the source as long
  as the bounds are below \<open>2 ^ 53\<close> in magnitude. From there on the double \<open>d + 1\<close> can be
  \<open>d\<close> again and the loop of the source can stall where this one ends, so a statement
  that a call returns is made for bounds below \<open>2 ^ 53\<close> only.
\<close>

partial_function (option) tick_loop ::
  "number \<Rightarrow> number \<Rightarrow> number \<Rightarrow> number list \<Rightarrow> number list \<Rightarrow> number list option" where
  "tick_loop d step upper majorSet drawn =
     (if d \<le> upper
      then tick_loop (d + step) step upper majorSet
             (if d \<in> set majorSet then drawn else drawn @ [d])
      else Some drawn)"

declare tick_loop.simps [code]

definition SMETER_TICKS :: "number list" where
  "SMETER_TICKS = map Fin [- 121, - 115, - 109, - 103, - 97, - 91, - 85, - 79, - 73,
     - 63, - 53, - 33, - 13]"

definition buildDefaultScale :: "vu_options \<Rightarrow> number list option" where
  "buildDefaultScale os = tick_loop (Math_ceil (dbMin os)) (Fin 1) (dbMax os) [] []"

definition buildSmeterScale :: "vu_options \<Rightarrow> number list option" where
  "buildSmeterScale os =
     (let inRange = filter (\<lambda>t. dbMin os \<le> t \<and> t \<le> dbMax os) SMETER_TICKS
      in case tick_loop (dbMin os) (Fin 6) (dbMax os) inRange [] of
           None \<Rightarrow> None
         | Some drawn \<Rightarrow> Some (drawn @ inRange))"

definition buildScale :: "vu_options \<Rightarrow> number list option" where
  "buildScale os =
     (if scalePreset os = Some ''smeter'' then buildSmeterScale os else buildDefaultScale os)"

definition rebuildScale :: "vumeter \<Rightarrow> vumeter option" where
  "rebuildScale m =
     (case buildScale (options m) of
        None \<Rightarrow> None
      | Some drawn \<Rightarrow> Some (m\<lparr>scaleGroup := drawn, rebuilds := Suc (rebuilds m)\<rparr>))"

section \<open>Construction and the public operations\<close>

text \<open>The source has no \<^verbatim>\<open>throw\<close> and checks no argument: a call either returns
  (\<open>Some\<close> of the new state) or stays in a tick loop (\<open>None\<close>).\<close>

definition construct :: "opt list \<Rightarrow> vumeter option" where
  "construct opts =
     (let os = Object_assign DEFAULTS opts
      in case buildScale os of
           None \<Rightarrow> None
         | Some drawn \<Rightarrow> Some
             \<lparr> options = os, initDbMin = dbMin os, initDbMax = dbMax os,
               targetDb = dbMin os, currentDb = dbMin os, clipping = False,
               lastTime = None, rangeSamples = [],
               autoRangeTargetMin = dbMin os, autoRangeTargetMax = dbMax os,
               lastRebuiltDbMin = dbMin os, lastRebuiltDbMax = dbMax os,
               peakDb = dbMin os, peakVisualDb = dbMin os, peakHoldUntil = Fin 0,
               peakDecaying = False, peakNeedle = showPeak os,
               scaleGroup = drawn, rebuilds = 0, notified = [] \<rparr>)"

definition setRange :: "number \<Rightarrow> number \<Rightarrow> vumeter \<Rightarrow> vumeter option" where
  "setRange newDbMin newDbMax m =
     (case rebuildScale
        (m\<lparr>options := (options m)\<lparr>dbMin := newDbMin, dbMax := newDbMax\<rparr>,
           targetDb := Math_max newDbMin (Math_min newDbMax (targetDb m)),
           currentDb := Math_max newDbMin (Math_min newDbMax (currentDb m))\<rparr>) of
        None \<Rightarrow> None
      | Some m' \<Rightarrow> Some (m'\<lparr>lastRebuiltDbMin := newDbMin, lastRebuiltDbMax := newDbMax\<rparr>))"

text \<open>The auto-range part of \<^verbatim>\<open>setValue\<close> (the body of \<^verbatim>\<open>if (opts.autoRange)\<close>).\<close>

definition autoRangeTrack :: "real \<Rightarrow> number \<Rightarrow> vumeter \<Rightarrow> vumeter option" where
  "autoRangeTrack now db m =
     (let opts = options m;
          cutoff = Fin now - autoRangeWindow opts * Fin 1000;
          samples = filter (\<lambda>s. cutoff \<le> Fin (snd s)) (rangeSamples m @ [(db, now)]);
          m1 = m\<lparr>rangeSamples := samples\<rparr>
      in if 0 < length samples then
           let dbs = map fst samples;
               observedMin = Math_min_list dbs;
               observedMax = Math_max_list dbs;
               newMin = observedMin - autoRangeMargin opts;
               newMax = observedMax + autoRangeMargin opts;
               m2 = m1\<lparr>autoRangeTargetMin := newMin, autoRangeTargetMax := newMax\<rparr>;
               expandMin = (if newMin < dbMin opts then newMin else dbMin opts);
               expandMax = (if dbMax opts < newMax then newMax else dbMax opts);
               needsExpand = (newMin < dbMin opts \<or> dbMax opts < newMax)
           in if needsExpand then setRange expandMin expandMax m2 else Some m2
         else Some m1)"

text \<open>The mapping part of \<^verbatim>\<open>setValue\<close>: \<open>[noiseFloor, dbMax]\<close> onto \<open>[dbMin, dbMax]\<close>.\<close>

definition mapToTarget :: "number \<Rightarrow> vumeter \<Rightarrow> vumeter" where
  "mapToTarget db m =
     (let opts = options m;
          mapped = (if db \<le> noiseFloor opts then dbMin opts
                    else dbMin opts + (db - noiseFloor opts) / (dbMax opts - noiseFloor opts)
                           * (dbMax opts - dbMin opts))
      in m\<lparr>targetDb := Math_max (dbMin opts) (Math_min (dbMax opts + Fin 1) mapped)\<rparr>)"

definition setValue :: "real \<Rightarrow> number \<Rightarrow> vumeter \<Rightarrow> vumeter option" where
  "setValue now db m =
     (case (if autoRange (options m) then autoRangeTrack now db m else Some m) of
        None \<Rightarrow> None
      | Some m' \<Rightarrow> Some (mapToTarget db m'))"

definition setAmplitude :: "real \<Rightarrow> number \<Rightarrow> vumeter \<Rightarrow> vumeter option" where
  "setAmplitude now amp m =
     (if amp \<le> Fin 0 then setValue now NegInfinity m
      else setValue now (Fin 20 * Math_log10 amp) m)"

definition getValue :: "vumeter \<Rightarrow> number" where
  "getValue m = currentDb m"


fun rebuild_key :: "opt \<Rightarrow> bool" where
  "rebuild_key (ClipThreshold _) = True"
| "rebuild_key (ScalePreset _) = True"
| "rebuild_key (Label _) = True"
| "rebuild_key (Brand _) = True"
| "rebuild_key _ = False"

definition setOptions :: "opt list \<Rightarrow> vumeter \<Rightarrow> vumeter option" where
  "setOptions opts m =
     (let needsRebuild = list_ex rebuild_key opts;
          m' = m\<lparr>options := Object_assign (options m) opts\<rparr>
      in if needsRebuild then rebuildScale m' else Some m')"

section \<open>One animation frame\<close>

text \<open>
  \<^verbatim>\<open>_animate(timestamp)\<close>, cut into its blocks in the order of the source. \<open>dt\<close> is the
  elapsed time in milliseconds, already capped at 100.
\<close>

text \<open>Auto-range contraction: shrink toward the observed target.\<close>

definition autoRangeContract :: "number \<Rightarrow> vumeter \<Rightarrow> vumeter" where
  "autoRangeContract dt m =
     (let maxChange = dt / Fin 1000;
          m1 = (if dbMin (options m) < autoRangeTargetMin m
                then m\<lparr>options := (options m)\<lparr>dbMin :=
                       Math_min (dbMin (options m) + maxChange) (autoRangeTargetMin m)\<rparr>\<rparr>
                else m)
      in if autoRangeTargetMax m1 < dbMax (options m1)
         then m1\<lparr>options := (options m1)\<lparr>dbMax :=
                Math_max (dbMax (options m1) - maxChange) (autoRangeTargetMax m1)\<rparr>\<rparr>
         else m1)"

text \<open>Rebuild the scale once the range has drifted by 1 dB from the last rebuild.\<close>

definition autoRangeRebuild :: "vumeter \<Rightarrow> vumeter option" where
  "autoRangeRebuild m =
     (if Fin 1 \<le> Math_abs (dbMin (options m) - lastRebuiltDbMin m) \<or>
         Fin 1 \<le> Math_abs (dbMax (options m) - lastRebuiltDbMax m)
      then case rebuildScale m of
             None \<Rightarrow> None
           | Some m' \<Rightarrow> Some (m'\<lparr>lastRebuiltDbMin := dbMin (options m'),
                                  lastRebuiltDbMax := dbMax (options m')\<rparr>)
      else Some m)"

text \<open>Main needle ballistics.\<close>

definition needleBallistics :: "number \<Rightarrow> vumeter \<Rightarrow> vumeter" where
  "needleBallistics dt m =
     (if ballistics (options m) then
        let diff = targetDb m - currentDb m
        in if Math_abs diff < Fin 0.005 then m\<lparr>currentDb := targetDb m\<rparr>
           else let tau = (if Fin 0 < diff then attackTime (options m)
                           else releaseTime (options m));
                    factor = Fin 1 - Math_exp (- dt / tau)
                in m\<lparr>currentDb := currentDb m + diff * factor\<rparr>
      else m\<lparr>currentDb := targetDb m\<rparr>)"

text \<open>Pin to scale limits.\<close>

definition pinToScale :: "vumeter \<Rightarrow> vumeter" where
  "pinToScale m =
     m\<lparr>currentDb := Math_max (dbMin (options m))
                        (Math_min (dbMax (options m) + Fin 0.5) (currentDb m))\<rparr>"

definition updateClipState :: "number \<Rightarrow> vumeter \<Rightarrow> vumeter" where
  "updateClipState db m =
     (let clipping' = (clipThreshold (options m) < db)
      in if clipping' = clipping m then m
         else m\<lparr>clipping := clipping',
                notified := notified m
                  @ (if clipping' \<and> onClip (options m) then [EnterClip] else [])
                  @ (if \<not> clipping' \<and> onClipRelease (options m) then [ExitClip] else [])\<rparr>)"

text \<open>Peak hold needle: capture a new peak, expire the hold period, then decay toward
  \<open>dbMin\<close> or attack toward \<open>peakDb\<close>.\<close>

definition peakCapture :: "real \<Rightarrow> vumeter \<Rightarrow> vumeter" where
  "peakCapture now m =
     (if peakDb m < targetDb m
      then m\<lparr>peakDb := targetDb m,
             peakHoldUntil := Fin now + peakHoldTime (options m),
             peakDecaying := False\<rparr>
      else m)"

definition peakExpire :: "real \<Rightarrow> vumeter \<Rightarrow> vumeter" where
  "peakExpire now m =
     (if \<not> peakDecaying m \<and> Fin 0 < peakHoldUntil m \<and> peakHoldUntil m \<le> Fin now
      then m\<lparr>peakDecaying := True\<rparr>
      else m)"

definition peakMove :: "number \<Rightarrow> vumeter \<Rightarrow> vumeter" where
  "peakMove dt m =
     (if peakDecaying m then
        let factor = Fin 1 - Math_exp (- dt / peakDecayTime (options m));
            m1 = m\<lparr>peakVisualDb :=
                   peakVisualDb m + (dbMin (options m) - peakVisualDb m) * factor\<rparr>
        in if peakVisualDb m1 \<le> dbMin (options m) + Fin 0.05
           then m1\<lparr>peakDb := dbMin (options m), peakVisualDb := dbMin (options m),
                   peakDecaying := False, peakHoldUntil := Fin 0\<rparr>
           else m1
      else
        let factor = Fin 1 - Math_exp (- dt / peakAttackTime (options m))
        in m\<lparr>peakVisualDb := peakVisualDb m + (peakDb m - peakVisualDb m) * factor\<rparr>)"

definition peakHold :: "number \<Rightarrow> real \<Rightarrow> vumeter \<Rightarrow> vumeter" where
  "peakHold dt now m = peakMove dt (peakExpire now (peakCapture now m))"

text \<open>The frame: \<open>timestamp\<close> is the argument of the callback, \<open>now\<close> the value of
  \<^verbatim>\<open>Date.now()\<close> read by the peak block.\<close>

definition animate :: "real \<Rightarrow> real \<Rightarrow> vumeter \<Rightarrow> vumeter option" where
  "animate timestamp now m =
     (let lastTime' = (case lastTime m of None \<Rightarrow> timestamp | Some t \<Rightarrow> t);
          dt = Math_min (Fin timestamp - Fin lastTime') (Fin 100);
          m0 = m\<lparr>lastTime := Some timestamp\<rparr>
      in case (if autoRange (options m0) then autoRangeRebuild (autoRangeContract dt m0)
               else Some m0) of
           None \<Rightarrow> None
         | Some m1 \<Rightarrow>
             let m2 = pinToScale (needleBallistics dt m1);
                 m3 = updateClipState (currentDb m2) m2
             in Some (if showPeak (options m3) \<and> peakNeedle m3 then peakHold dt now m3
                      else m3))"

section \<open>Reference states\<close>

text \<open>The state that \<^verbatim>\<open>new VUMeter(container)\<close> leaves, with the default options.\<close>

definition meter0 :: vumeter where
  "meter0 =
     \<lparr> options = DEFAULTS, initDbMin = Fin (- 20), initDbMax = Fin 3,
       targetDb = Fin (- 20), currentDb = Fin (- 20), clipping = False,
       lastTime = None, rangeSamples = [],
       autoRangeTargetMin = Fin (- 20), autoRangeTargetMax = Fin 3,
       lastRebuiltDbMin = Fin (- 20), lastRebuiltDbMax = Fin 3,
       peakDb = Fin (- 20), peakVisualDb = Fin (- 20), peakHoldUntil = Fin 0,
       peakDecaying = False, peakNeedle = False,
       scaleGroup = map Fin [- 20, - 19, - 18, - 17, - 16, - 15, - 14, - 13, - 12, - 11,
         - 10, - 9, - 8, - 7, - 6, - 5, - 4, - 3, - 2, - 1, 0, 1, 2, 3],
       rebuilds = 0, notified = [] \<rparr>"

text \<open>
  A sequence of frame evaluations of the clip state: each frame calls
  \<^verbatim>\<open>_updateClipState\<close> once, with the current value of that frame.
\<close>

fun clipFrames :: "number list \<Rightarrow> vumeter \<Rightarrow> vumeter" where
  "clipFrames [] m = m"
| "clipFrames (db # dbs) m = clipFrames dbs (updateClipState db m)"

text \<open>
  The notifications that the specification asks for, written from its words: given the
  value \<open>prev\<close> of the predicate before the first frame and its values on the frames, one
  \<open>EnterClip\<close> for each rising edge, one \<open>ExitClip\<close> for each falling edge, and nothing
  for a frame on which the predicate keeps its value.
\<close>

fun spec_edge_events :: "bool \<Rightarrow> bool list \<Rightarrow> clip_event list" where
  "spec_edge_events prev [] = []"
| "spec_edge_events prev (p # ps) =
     (if \<not> prev \<and> p then [EnterClip] else if prev \<and> \<not> p then [ExitClip] else [])
       @ spec_edge_events p ps"

text \<open>The default meter with both clip callbacks installed.\<close>

definition clip_meter :: vumeter where
  "clip_meter = meter0\<lparr>options := DEFAULTS\<lparr>onClip := True, onClipRelease := True\<rparr>\<rparr>"

text \<open>
  The auto-range quantities of the specification, written from its words: the samples that
  are not older than \<open>now - windowSec * 1000\<close>, and the least and greatest raw value among
  samples (finite values are read with \<open>real_of\<close>).
\<close>

definition spec_window :: "real \<Rightarrow> real \<Rightarrow> (number \<times> real) list \<Rightarrow> (number \<times> real) list" where
  "spec_window now windowSec samples = filter (\<lambda>s. now - windowSec * 1000 \<le> snd s) samples"

definition spec_observedMin :: "(number \<times> real) list \<Rightarrow> real" where
  "spec_observedMin samples = Min (set (map (\<lambda>s. real_of (fst s)) samples))"

definition spec_observedMax :: "(number \<times> real) list \<Rightarrow> real" where
  "spec_observedMax samples = Max (set (map (\<lambda>s. real_of (fst s)) samples))"

text \<open>The default meter with the \<open>autoRange\<close> option on.\<close>

definition auto_meter :: vumeter where
  "auto_meter = meter0\<lparr>options := DEFAULTS\<lparr>autoRange := True\<rparr>\<rparr>"

text \<open>
  An auto-ranging meter in its contraction phase: the range was expanded to \<open>[-40, 3]\<close>
  earlier, the only sample left in the window is \<open>-30\<close>, so the contraction targets are
  \<open>-32\<close> and \<open>-28\<close>; the last frame was at time 41000.
\<close>

definition shrink_meter :: vumeter where
  "shrink_meter =
     auto_meter\<lparr>options := (options auto_meter)\<lparr>dbMin := Fin (- 40)\<rparr>,
                rangeSamples := [(Fin (- 30), 40000)],
                autoRangeTargetMin := Fin (- 32), autoRangeTargetMax := Fin (- 28),
                lastRebuiltDbMin := Fin (- 40), lastTime := Some 41000\<rparr>"

text \<open>
  A session with the peak needle: \<open>peak_meter0\<close> is the state after
  \<^verbatim>\<open>new VUMeter(container, { showPeak: true })\<close>, \<open>peak_meter1\<close> the state after
  \<^verbatim>\<open>setValue(0)\<close> on it, \<open>peaked_meter\<close> the state after the first frame (timestamp 0,
  \<^verbatim>\<open>Date.now()\<close> = 1000), which captured the peak 0. \<open>decaying_meter\<close> is a state of the
  decay phase: the input is back at \<open>-20\<close>, the hold has expired and the peak needle has
  decayed to \<open>-19.96\<close>.
\<close>

definition peak_meter0 :: vumeter where
  "peak_meter0 = meter0\<lparr>options := DEFAULTS\<lparr>showPeak := True\<rparr>, peakNeedle := True\<rparr>"

definition peak_meter1 :: vumeter where
  "peak_meter1 = peak_meter0\<lparr>targetDb := Fin 0\<rparr>"

definition peaked_meter :: vumeter where
  "peaked_meter = peak_meter1\<lparr>lastTime := Some 0, peakDb := Fin 0, peakHoldUntil := Fin 3000\<rparr>"


text \<open>The state after
  \<^verbatim>\<open>new VUMeter(container, { dbMin: 3, dbMax: 3, noiseFloor: 3 })\<close>.\<close>

definition flat_meter :: vumeter where
  "flat_meter =
     \<lparr> options = DEFAULTS\<lparr>dbMin := Fin 3, dbMax := Fin 3, noiseFloor := Fin 3\<rparr>,
       initDbMin = Fin 3, initDbMax = Fin 3,
       targetDb = Fin 3, currentDb = Fin 3, clipping = False,
       lastTime = None, rangeSamples = [],
       autoRangeTargetMin = Fin 3, autoRangeTargetMax = Fin 3,
       lastRebuiltDbMin = Fin 3, lastRebuiltDbMax = Fin 3,
       peakDb = Fin 3, peakVisualDb = Fin 3, peakHoldUntil = Fin 0,
       peakDecaying = False, peakNeedle = False,
       scaleGroup = [Fin 3], rebuilds = 0, notified = [] \<rparr>"

section \<open>Arithmetic on finite numbers\<close>

lemma minus_Fin [simp]: "Fin a - Fin b = Fin (a - b)"
  by (simp add: minus_number_def)

lemma Math_min_Fin [simp]: "Math_min (Fin a) (Fin b) = Fin (min a b)"
  by (simp add: Math_min_def min_def)

lemma Math_max_Fin [simp]: "Math_max (Fin a) (Fin b) = Fin (max a b)"
  by (simp add: Math_max_def max_def)

section \<open>The scale is built for finite bounds\<close>

lemma tick_loop_returns:
  assumes "0 < s"
  shows "\<exists>drawn'. tick_loop (Fin d) (Fin s) (Fin hi) skip drawn = Some drawn'"
proof (induction "nat (\<lfloor>(hi - d) / s\<rfloor> + 1)" arbitrary: d drawn rule: less_induct)
  case less
  show ?case
  proof (cases "d \<le> hi")
    case False
    then show ?thesis by (subst tick_loop.simps) simp
  next
    case True
    have "(hi - (d + s)) / s = (hi - d) / s - 1"
      using assms by (simp add: field_simps)
    moreover have "0 \<le> \<lfloor>(hi - d) / s\<rfloor>"
      using True assms by simp
    ultimately have "nat (\<lfloor>(hi - (d + s)) / s\<rfloor> + 1) < nat (\<lfloor>(hi - d) / s\<rfloor> + 1)"
      by simp
    from less [OF this] show ?thesis
      using True by (subst tick_loop.simps) simp
  qed
qed

lemma buildScale_returns:
  assumes "dbMin os = Fin lo" "dbMax os = Fin hi"
  shows "\<exists>drawn. buildScale os = Some drawn"
proof (cases "scalePreset os = Some ''smeter''")
  case True
  obtain drawn where "tick_loop (Fin lo) (Fin 6) (Fin hi)
      (filter (\<lambda>t. Fin lo \<le> t \<and> t \<le> Fin hi) SMETER_TICKS) [] = Some drawn"
    using tick_loop_returns [of 6] by force
  then show ?thesis
    using True assms by (simp add: buildScale_def buildSmeterScale_def)
next
  case False
  then show ?thesis
    using assms tick_loop_returns [of 1] by (simp add: buildScale_def buildDefaultScale_def)
qed

lemma buildScale_DEFAULTS: "buildScale DEFAULTS = Some (scaleGroup meter0)"
  by (simp add: buildScale_def buildDefaultScale_def DEFAULTS_def meter0_def tick_loop.simps)

lemma construct_default: "construct [] = Some meter0"
  using buildScale_DEFAULTS
  by (simp add: construct_def Object_assign_def meter0_def) (simp add: DEFAULTS_def)

lemma buildScale_default_range:
  assumes "dbMin os = Fin (- 20)" and "dbMax os = Fin 3" and "scalePreset os = None"
  shows "buildScale os = Some (scaleGroup meter0)"
  using assms
  by (simp add: buildScale_def buildDefaultScale_def meter0_def tick_loop.simps)

lemma construct_clip_meter: "construct [OnClip True, OnClipRelease True] = Some clip_meter"
  using buildScale_default_range [of "DEFAULTS\<lparr>onClip := True, onClipRelease := True\<rparr>"]
  by (simp add: construct_def Object_assign_def clip_meter_def meter0_def DEFAULTS_def)

lemma construct_auto_meter: "construct [AutoRange True] = Some auto_meter"
  using buildScale_default_range [of "DEFAULTS\<lparr>autoRange := True\<rparr>"]
  by (simp add: construct_def Object_assign_def auto_meter_def meter0_def DEFAULTS_def)

section \<open>The ballistics step\<close>

text \<open>
  Claim C3. With ballistics enabled, finite target \<open>t\<close> and current value \<open>c\<close>, and a
  time constant \<open>tau\<close> other than zero (the attack time when \<open>t - c\<close> is positive, the
  release time otherwise), the ballistics block of a frame with elapsed time \<open>dt\<close> sets the
  current value to \<open>t\<close> when \<open>\<bar>t - c\<bar> < 0.005\<close>, and to
  \<open>c + (t - c) * (1 - exp (- dt / tau))\<close> otherwise. (The frame pins the value to the scale
  limits after this block.)
\<close>

theorem needleBallistics_step:
  assumes "ballistics (options m)"
    and "targetDb m = Fin t" and "currentDb m = Fin c"
    and "attackTime (options m) = Fin ta" and "releaseTime (options m) = Fin tr"
    and "tau = (if 0 < t - c then ta else tr)" and "tau \<noteq> 0"
  shows "currentDb (needleBallistics (Fin dt) m) =
           Fin (if \<bar>t - c\<bar> < 0.005 then t
                else c + (t - c) * (1 - exp (- dt / tau)))"
proof (cases "0 < t - c")
  case True
  with assms show ?thesis by (simp add: needleBallistics_def Let_def)
next
  case False
  with assms show ?thesis by (simp add: needleBallistics_def Let_def)
qed

theorem needleBallistics_step_witness:
  "ballistics (options (meter0\<lparr>targetDb := Fin 0\<rparr>)) \<and>
   currentDb (needleBallistics (Fin 16) (meter0\<lparr>targetDb := Fin 0\<rparr>)) =
     Fin (- 20 + 20 * (1 - exp (- 16 / 300)))"
  using needleBallistics_step [of "meter0\<lparr>targetDb := Fin 0\<rparr>" 0 "- 20" 300 300 300 16]
  by (simp add: meter0_def DEFAULTS_def)

section \<open>setValue without auto-range\<close>

text \<open>
  Claim C10. On an instance whose \<open>autoRange\<close> option is off, \<open>setValue\<close> returns and
  changes the target value only: the options (with \<open>dbMin\<close> and \<open>dbMax\<close>), the current
  value, the clip state, the peak tracker and the sample history are those of before.
\<close>

theorem setValue_autoRange_off:
  assumes "\<not> autoRange (options m)"
  shows "\<exists>v. setValue now db m = Some (m\<lparr>targetDb := v\<rparr>)"
  using assms by (auto simp add: setValue_def mapToTarget_def Let_def)

theorem setValue_autoRange_off_witness:
  "\<not> autoRange (options meter0) \<and>
   (\<exists>v. setValue 0 (Fin (- 6)) meter0 = Some (meter0\<lparr>targetDb := v\<rparr>))"
  using setValue_autoRange_off [of meter0 0 "Fin (- 6)"]
  by (simp add: meter0_def DEFAULTS_def)

section \<open>The clip notifications\<close>

lemma updateClipState_options [simp]: "options (updateClipState db m) = options m"
  by (simp add: updateClipState_def Let_def)

lemma updateClipState_clipping [simp]:
  "clipping (updateClipState db m) = (clipThreshold (options m) < db)"
  by (auto simp add: updateClipState_def Let_def)

lemma updateClipState_notified:
  "onClip (options m) \<Longrightarrow> onClipRelease (options m) \<Longrightarrow>
   notified (updateClipState db m) =
     notified m @ spec_edge_events (clipping m) [clipThreshold (options m) < db]"
  by (auto simp add: updateClipState_def Let_def)

text \<open>
  Claim C6. With both callbacks installed, the calls that a sequence of frame evaluations
  adds to the log are exactly the edges of the predicate \<open>clipThreshold < currentValue\<close>
  over the sequence, starting from the stored clip state: one \<open>EnterClip\<close> per rising
  edge, one \<open>ExitClip\<close> per falling edge, in order, and none for a frame that leaves the
  predicate unchanged.
\<close>

theorem clip_notifications_per_edge:
  assumes "onClip (options m)" and "onClipRelease (options m)"
  shows "notified (clipFrames dbs m) =
           notified m @ spec_edge_events (clipping m)
             (map (\<lambda>db. clipThreshold (options m) < db) dbs)"
  using assms
proof (induction dbs arbitrary: m)
  case Nil
  then show ?case by simp
next
  case (Cons db dbs)
  from Cons.IH [of "updateClipState db m"] Cons.prems
  show ?case
    by (simp add: updateClipState_notified)
qed

theorem clip_notifications_per_edge_witness:
  "onClip (options clip_meter) \<and> onClipRelease (options clip_meter) \<and>
   notified (clipFrames [Fin (- 5), Fin 1, Fin 2, Fin 0.5, Fin (- 3), Fin (- 4)] clip_meter) =
     [EnterClip, ExitClip]"
  using clip_notifications_per_edge
    [of clip_meter "[Fin (- 5), Fin 1, Fin 2, Fin 0.5, Fin (- 3), Fin (- 4)]"]
  by (simp add: clip_meter_def meter0_def DEFAULTS_def)

section \<open>The worked example of the mapping\<close>

text \<open>
  Claim C9, as stated, fails: with \<open>dbMin = -20\<close>, \<open>dbMax = 3\<close> and \<open>noiseFloor = -20\<close>,
  \<open>setValue(-8.5)\<close> sets the target to \<open>-8.5\<close>, which is more than 1 away from
  \<open>-10.07\<close>.
\<close>

theorem scenario_target_counterexample:
  "setValue 0 (Fin (- 8.5)) meter0 = Some (meter0\<lparr>targetDb := Fin (- 8.5)\<rparr>) \<and>
   \<not> \<bar>(- 8.5) - (- 10.07 :: real)\<bar> < 1"
  by (simp add: setValue_def mapToTarget_def meter0_def DEFAULTS_def)

text \<open>
  Claim C9, amended. With \<open>dbMin = -20\<close>, \<open>dbMax = 3\<close>, \<open>noiseFloor = -20\<close> and
  auto-range off, \<open>setValue(-60)\<close> sets the target to \<open>-20\<close> and \<open>setValue(-8.5)\<close> sets it
  to \<open>-8.5\<close>.
\<close>

theorem scenario_target:
  assumes "dbMin (options m) = Fin (- 20)" and "dbMax (options m) = Fin 3"
    and "noiseFloor (options m) = Fin (- 20)" and "\<not> autoRange (options m)"
  shows "setValue now (Fin (- 60)) m = Some (m\<lparr>targetDb := Fin (- 20)\<rparr>) \<and>
         setValue now (Fin (- 8.5)) m = Some (m\<lparr>targetDb := Fin (- 8.5)\<rparr>)"
  using assms by (simp add: setValue_def mapToTarget_def)

theorem scenario_target_witness:
  "dbMin (options meter0) = Fin (- 20) \<and> dbMax (options meter0) = Fin 3 \<and>
   noiseFloor (options meter0) = Fin (- 20) \<and> \<not> autoRange (options meter0) \<and>
   setValue 0 (Fin (- 60)) meter0 = Some (meter0\<lparr>targetDb := Fin (- 20)\<rparr>) \<and>
   setValue 0 (Fin (- 8.5)) meter0 = Some (meter0\<lparr>targetDb := Fin (- 8.5)\<rparr>)"
  using scenario_target [of meter0 0]
  by (simp add: meter0_def DEFAULTS_def)

section \<open>Auto-range tracking on finite samples\<close>

lemma Math_min_Infinity [simp]: "Math_min (Fin a) Infinity = Fin a"
  by (simp add: Math_min_def)

lemma Math_max_NegInfinity [simp]: "Math_max (Fin a) NegInfinity = Fin a"
  by (simp add: Math_max_def)

lemma Math_min_list_Fin:
  assumes "xs \<noteq> []" and "\<forall>x\<in>set xs. is_fin x"
  shows "Math_min_list xs = Fin (Min (set (map real_of xs)))"
  using assms
proof (induction xs rule: list_nonempty_induct)
  case (single x)
  then show ?case by (cases x) (simp_all add: Math_min_list_def)
next
  case (cons x xs)
  then have "Math_min_list xs = Fin (Min (set (map real_of xs)))" by simp
  with cons.hyps cons.prems show ?case
    by (cases x) (simp_all add: Math_min_list_def)
qed

lemma Math_max_list_Fin:
  assumes "xs \<noteq> []" and "\<forall>x\<in>set xs. is_fin x"
  shows "Math_max_list xs = Fin (Max (set (map real_of xs)))"
  using assms
proof (induction xs rule: list_nonempty_induct)
  case (single x)
  then show ?case by (cases x) (simp_all add: Math_max_list_def)
next
  case (cons x xs)
  then have "Math_max_list xs = Fin (Max (set (map real_of xs)))" by simp
  with cons.hyps cons.prems show ?case
    by (cases x) (simp_all add: Math_max_list_def)
qed

lemma setRange_Fin:
  "\<exists>drawn. setRange (Fin a) (Fin b) m =
     Some (m\<lparr>options := (options m)\<lparr>dbMin := Fin a, dbMax := Fin b\<rparr>,
             targetDb := Math_max (Fin a) (Math_min (Fin b) (targetDb m)),
             currentDb := Math_max (Fin a) (Math_min (Fin b) (currentDb m)),
             scaleGroup := drawn, rebuilds := Suc (rebuilds m),
             lastRebuiltDbMin := Fin a, lastRebuiltDbMax := Fin b\<rparr>)"
proof -
  obtain drawn where "buildScale ((options m)\<lparr>dbMin := Fin a, dbMax := Fin b\<rparr>) = Some drawn"
    using buildScale_returns [of "(options m)\<lparr>dbMin := Fin a, dbMax := Fin b\<rparr>" a b] by auto
  then show ?thesis
    by (intro exI [of _ drawn]) (simp add: setRange_def rebuildScale_def)
qed

lemma autoRangeTrack_empty:
  assumes "filter (\<lambda>s. Fin now - autoRangeWindow (options m) * Fin 1000 \<le> Fin (snd s))
             (rangeSamples m @ [(db, now)]) = []"
  shows "autoRangeTrack now db m = Some (m\<lparr>rangeSamples := []\<rparr>)"
  using assms unfolding autoRangeTrack_def Let_def by simp

lemma autoRangeTrack_Fin:
  assumes lo: "dbMin (options m) = Fin lo" and hi: "dbMax (options m) = Fin hi"
    and mg: "autoRangeMargin (options m) = Fin mg"
    and fin: "\<forall>s\<in>set (rangeSamples m). is_fin (fst s)"
    and S: "S = filter (\<lambda>s. Fin now - autoRangeWindow (options m) * Fin 1000 \<le> Fin (snd s))
                  (rangeSamples m @ [(Fin x, now)])"
    and ne: "S \<noteq> []"
  shows "\<exists>m'. autoRangeTrack now (Fin x) m = Some m' \<and>
           options m' = (options m)\<lparr>dbMin := Fin (min lo (spec_observedMin S - mg)),
                                    dbMax := Fin (max hi (spec_observedMax S + mg))\<rparr>"
proof -
  have finS: "\<forall>d\<in>set (map fst S). is_fin d"
    using fin S by auto
  have neS: "map fst S \<noteq> []"
    using ne by simp
  have omin: "Math_min_list (map fst S) = Fin (spec_observedMin S)"
    using Math_min_list_Fin [OF neS finS] by (simp add: spec_observedMin_def comp_def)
  have omax: "Math_max_list (map fst S) = Fin (spec_observedMax S)"
    using Math_max_list_Fin [OF neS finS] by (simp add: spec_observedMax_def comp_def)
  define newMin where "newMin = spec_observedMin S - mg"
  define newMax where "newMax = spec_observedMax S + mg"
  define m2 where "m2 = m\<lparr>rangeSamples := S, autoRangeTargetMin := Fin newMin,
                            autoRangeTargetMax := Fin newMax\<rparr>"
  have track: "autoRangeTrack now (Fin x) m =
      (if newMin < lo \<or> hi < newMax
       then setRange (Fin (if newMin < lo then newMin else lo))
              (Fin (if hi < newMax then newMax else hi)) m2
       else Some m2)"
    unfolding autoRangeTrack_def Let_def S [symmetric]
    using ne by (simp add: omin omax lo hi mg newMin_def newMax_def m2_def)
  show ?thesis
  proof (cases "newMin < lo \<or> hi < newMax")
    case True
    obtain drawn where "setRange (Fin (if newMin < lo then newMin else lo))
        (Fin (if hi < newMax then newMax else hi)) m2 =
      Some (m2\<lparr>options := (options m2)\<lparr>dbMin := Fin (if newMin < lo then newMin else lo),
                    dbMax := Fin (if hi < newMax then newMax else hi)\<rparr>,
             targetDb := Math_max (Fin (if newMin < lo then newMin else lo))
                (Math_min (Fin (if hi < newMax then newMax else hi)) (targetDb m2)),
             currentDb := Math_max (Fin (if newMin < lo then newMin else lo))
                (Math_min (Fin (if hi < newMax then newMax else hi)) (currentDb m2)),
             scaleGroup := drawn, rebuilds := Suc (rebuilds m2),
             lastRebuiltDbMin := Fin (if newMin < lo then newMin else lo),
             lastRebuiltDbMax := Fin (if hi < newMax then newMax else hi)\<rparr>)"
      using setRange_Fin by blast
    with True track show ?thesis
      by (auto simp add: m2_def newMin_def newMax_def min_def max_def)
  next
    case False
    with track have "autoRangeTrack now (Fin x) m = Some m2" by simp
    moreover have "options m2 = (options m)\<lparr>dbMin := Fin (min lo newMin), dbMax := Fin (max hi newMax)\<rparr>"
      using False lo hi by (simp add: m2_def min_def max_def)
    ultimately show ?thesis
      by (simp add: newMin_def newMax_def)
  qed
qed

section \<open>The mapping of setValue\<close>

lemma mapToTarget_Fin:
  assumes "dbMin (options m) = Fin lo" and "dbMax (options m) = Fin hi"
    and "noiseFloor (options m) = Fin nf" and "nf < hi"
  shows "targetDb (mapToTarget (Fin x) m) =
           Fin (if x \<le> nf then lo
                else max lo (min (hi + 1) (lo + (x - nf) / (hi - nf) * (hi - lo))))"
  using assms by (simp add: mapToTarget_def Let_def)

lemma mapToTarget_options [simp]: "options (mapToTarget db m) = options m"
  by (simp add: mapToTarget_def Let_def)

text \<open>
  Without auto-range \<open>setValue\<close> draws nothing and always returns. For finite bounds
  with \<open>noiseFloor < dbMax\<close> the target is \<open>dbMin\<close> at or below the noise floor, the
  clamped interpolation above it, and \<open>dbMin\<close> for the silence value \<open>-Infinity\<close>.
\<close>

lemma setValue_plain_target:
  assumes "\<not> autoRange (options m)"
    and "dbMin (options m) = Fin lo" and "dbMax (options m) = Fin hi"
    and "noiseFloor (options m) = Fin nf" and "nf < hi"
  shows "setValue now (Fin x) m =
           Some (m\<lparr>targetDb := Fin (if x \<le> nf then lo
              else max lo (min (hi + 1) (lo + (x - nf) / (hi - nf) * (hi - lo))))\<rparr>)"
    and "setValue now NegInfinity m = Some (m\<lparr>targetDb := Fin lo\<rparr>)"
  using assms by (simp_all add: setValue_def mapToTarget_def Let_def)

text \<open>With auto-range, a call of \<open>setValue\<close> that returns has mapped the value over the
  bounds that it leaves.\<close>

lemma setValue_result_target:
  assumes ret: "setValue now (Fin x) m = Some m'"
    and lo: "dbMin (options m') = Fin lo" and hi: "dbMax (options m') = Fin hi"
    and nf: "noiseFloor (options m') = Fin nf" and gt: "nf < hi"
  shows "targetDb m' =
           Fin (if x \<le> nf then lo
                else max lo (min (hi + 1) (lo + (x - nf) / (hi - nf) * (hi - lo))))"
proof -
  obtain m1 where m': "m' = mapToTarget (Fin x) m1"
    using ret by (auto simp add: setValue_def split: option.splits if_splits)
  then have "dbMin (options m1) = Fin lo" "dbMax (options m1) = Fin hi"
    "noiseFloor (options m1) = Fin nf"
    using lo hi nf by simp_all
  from mapToTarget_Fin [OF this gt] m' show ?thesis by simp
qed

section \<open>The immediate expansion on finite samples\<close>

text \<open>
  With auto-range on, finite bounds, margin and samples, and a window of \<open>w \<ge> 0\<close>
  seconds, one call of \<open>setValue\<close> with a finite value returns with the bounds already
  expanded to the desired ones where these lie outside the old range. The resulting
  bounds are taken below \<open>2 ^ 53\<close> in magnitude, the range in which the tick loop of the
  source counts as the one here does.
\<close>

lemma autoRange_expands_within_range:
  assumes auto: "autoRange (options m)"
    and lo: "dbMin (options m) = Fin lo" and hi: "dbMax (options m) = Fin hi"
    and mg: "autoRangeMargin (options m) = Fin mg"
    and w: "autoRangeWindow (options m) = Fin w" and w0: "0 \<le> w"
    and fin: "\<forall>s\<in>set (rangeSamples m). is_fin (fst s)"
    and window: "window = spec_window now w (rangeSamples m @ [(Fin x, now)])"
    and dmin: "desiredMin = spec_observedMin window - mg"
    and dmax: "desiredMax = spec_observedMax window + mg"
    and range: "\<bar>min lo desiredMin\<bar> < 2 ^ 53" "\<bar>max hi desiredMax\<bar> < 2 ^ 53"
  shows "\<exists>m'. setValue now (Fin x) m = Some m' \<and>
           dbMin (options m') = Fin (min lo desiredMin) \<and>
           dbMax (options m') = Fin (max hi desiredMax)"
proof -
  have S: "window = filter (\<lambda>s. Fin now - autoRangeWindow (options m) * Fin 1000 \<le> Fin (snd s))
                  (rangeSamples m @ [(Fin x, now)])"
    using w by (simp add: window spec_window_def)
  have ne: "window \<noteq> []"
    using w0 by (simp add: window spec_window_def)
  from autoRangeTrack_Fin [OF lo hi mg fin S ne]
  obtain m1 where track: "autoRangeTrack now (Fin x) m = Some m1"
    and opts: "options m1 = (options m)\<lparr>dbMin := Fin (min lo desiredMin),
                                    dbMax := Fin (max hi desiredMax)\<rparr>"
    unfolding dmin dmax by blast
  have "setValue now (Fin x) m = Some (mapToTarget (Fin x) m1)"
    using auto track by (simp add: setValue_def)
  then show ?thesis
    using opts by simp
qed

section \<open>The rate-limited contraction\<close>

lemma needleBallistics_options [simp]: "options (needleBallistics dt m) = options m"
  by (simp add: needleBallistics_def Let_def)

lemma pinToScale_options [simp]: "options (pinToScale m) = options m"
  by (simp add: pinToScale_def)

lemma peakHold_options [simp]: "options (peakHold dt now m) = options m"
  by (simp add: peakHold_def peakMove_def peakExpire_def peakCapture_def Let_def)

lemma autoRangeRebuild_Fin:
  assumes "dbMin (options m) = Fin lo" and "dbMax (options m) = Fin hi"
  shows "\<exists>m'. autoRangeRebuild m = Some m' \<and> options m' = options m"
proof -
  obtain drawn where "buildScale (options m) = Some drawn"
    using buildScale_returns [OF assms] by blast
  then show ?thesis
    by (simp add: autoRangeRebuild_def rebuildScale_def)
qed

lemma autoRangeContract_exact:
  assumes "dbMin (options m) = Fin lo" and "dbMax (options m) = Fin hi"
    and "autoRangeTargetMin m = Fin tmin" and "autoRangeTargetMax m = Fin tmax"
  shows "options (autoRangeContract (Fin dt) m) =
           (options m)\<lparr>dbMin := Fin (if lo < tmin then min (lo + dt / 1000) tmin else lo),
                       dbMax := Fin (if tmax < hi then max (hi - dt / 1000) tmax else hi)\<rparr>"
  using assms by (simp add: autoRangeContract_def Let_def)

text \<open>
  Claim C5. With auto-range on, finite bounds (below \<open>2 ^ 53\<close> in magnitude) and
  contraction targets \<open>tmin\<close> and \<open>tmax\<close>, a frame whose elapsed time \<open>dt\<close> (the time since
  the last frame, capped at 100 ms; 0 on the first frame) is not negative returns, and
  it has moved each bound toward its target by exactly the allowed step: \<open>dbMin\<close> below
  \<open>tmin\<close> becomes \<open>min (dbMin + dt / 1000) tmin\<close>, \<open>dbMax\<close> above \<open>tmax\<close> becomes
  \<open>max (dbMax - dt / 1000) tmax\<close>, and a bound at or beyond its target stays. So
  \<open>dbMin\<close> rises by at most \<open>dt / 1000\<close>, \<open>dbMax\<close> falls by at most \<open>dt / 1000\<close>, and
  neither passes its target.
\<close>

theorem autoRange_contraction_rate:
  assumes auto: "autoRange (options m)"
    and lo: "dbMin (options m) = Fin lo" and hi: "dbMax (options m) = Fin hi"
    and range: "\<bar>lo\<bar> < 2 ^ 53" "\<bar>hi\<bar> < 2 ^ 53"
    and tmin: "autoRangeTargetMin m = Fin tmin" and tmax: "autoRangeTargetMax m = Fin tmax"
    and dt: "dt = min (timestamp - (case lastTime m of None \<Rightarrow> timestamp | Some t \<Rightarrow> t)) 100"
    and dt0: "0 \<le> dt"
  shows "\<exists>m' lo' hi'. animate timestamp now m = Some m' \<and>
           dbMin (options m') = Fin lo' \<and> dbMax (options m') = Fin hi' \<and>
           lo' = (if lo < tmin then min (lo + dt / 1000) tmin else lo) \<and>
           hi' = (if tmax < hi then max (hi - dt / 1000) tmax else hi) \<and>
           lo \<le> lo' \<and> lo' \<le> lo + dt / 1000 \<and> hi - dt / 1000 \<le> hi' \<and> hi' \<le> hi \<and>
           (lo < tmin \<longrightarrow> lo' \<le> tmin) \<and> (tmax < hi \<longrightarrow> tmax \<le> hi')"
proof -
  define lo' where "lo' = (if lo < tmin then min (lo + dt / 1000) tmin else lo)"
  define hi' where "hi' = (if tmax < hi then max (hi - dt / 1000) tmax else hi)"
  define m0 where "m0 = m\<lparr>lastTime := Some timestamp\<rparr>"
  have "dbMin (options m0) = Fin lo" "dbMax (options m0) = Fin hi"
    "autoRangeTargetMin m0 = Fin tmin" "autoRangeTargetMax m0 = Fin tmax"
    using lo hi tmin tmax by (simp_all add: m0_def)
  from autoRangeContract_exact [OF this, of dt]
  have c: "options (autoRangeContract (Fin dt) m0) =
      (options m)\<lparr>dbMin := Fin lo', dbMax := Fin hi'\<rparr>"
    by (simp add: lo'_def hi'_def m0_def)
  then have "dbMin (options (autoRangeContract (Fin dt) m0)) = Fin lo'"
    "dbMax (options (autoRangeContract (Fin dt) m0)) = Fin hi'"
    by simp_all
  from autoRangeRebuild_Fin [OF this]
  obtain m1 where r: "autoRangeRebuild (autoRangeContract (Fin dt) m0) = Some m1"
    and o1: "options m1 = (options m)\<lparr>dbMin := Fin lo', dbMax := Fin hi'\<rparr>"
    using c by auto
  have "\<exists>m'. animate timestamp now m = Some m' \<and> options m' = options m1"
    unfolding animate_def Let_def m0_def [symmetric]
    using auto r dt by (simp add: m0_def)
  then obtain m' where a: "animate timestamp now m = Some m'" and o: "options m' = options m1"
    by blast
  have b: "lo \<le> lo' \<and> lo' \<le> lo + dt / 1000 \<and> hi - dt / 1000 \<le> hi' \<and> hi' \<le> hi \<and>
      (lo < tmin \<longrightarrow> lo' \<le> tmin) \<and> (tmax < hi \<longrightarrow> tmax \<le> hi')"
    using dt0 by (auto simp add: lo'_def hi'_def)
  show ?thesis
    using a o o1 b lo'_def hi'_def
    by (intro exI [of _ m'] exI [of _ lo'] exI [of _ hi']) simp
qed

lemma shrink_meter_fields:
  "autoRange (options shrink_meter)" "dbMin (options shrink_meter) = Fin (- 40)"
  "dbMax (options shrink_meter) = Fin 3" "lastTime shrink_meter = Some 41000"
  "autoRangeTargetMin shrink_meter = Fin (- 32)" "autoRangeTargetMax shrink_meter = Fin (- 28)"
  by (simp_all add: shrink_meter_def auto_meter_def meter0_def DEFAULTS_def)

theorem autoRange_contraction_rate_witness:
  "autoRange (options shrink_meter) \<and>
   dbMin (options shrink_meter) = Fin (- 40) \<and> dbMax (options shrink_meter) = Fin 3 \<and>
   autoRangeTargetMin shrink_meter = Fin (- 32) \<and>
   autoRangeTargetMax shrink_meter = Fin (- 28) \<and>
   (0 :: real) \<le> min (41016 - 41000) 100 \<and>
   (\<exists>m'. animate 41016 0 shrink_meter = Some m' \<and>
      dbMin (options m') = Fin (- 39.984) \<and> dbMax (options m') = Fin 2.984)"
proof -
  have "\<exists>m' lo' hi'. animate 41016 0 shrink_meter = Some m' \<and>
      dbMin (options m') = Fin lo' \<and> dbMax (options m') = Fin hi' \<and>
      lo' = (if (- 40 :: real) < - 32 then min (- 40 + 16 / 1000) (- 32) else - 40) \<and>
      hi' = (if (- 28 :: real) < 3 then max (3 - 16 / 1000) (- 28) else 3) \<and>
      - 40 \<le> lo' \<and> lo' \<le> - 40 + 16 / 1000 \<and> 3 - 16 / 1000 \<le> hi' \<and> hi' \<le> 3 \<and>
      ((- 40 :: real) < - 32 \<longrightarrow> lo' \<le> - 32) \<and> ((- 28 :: real) < 3 \<longrightarrow> - 28 \<le> hi')"
    by (rule autoRange_contraction_rate [of shrink_meter "- 40" 3 "- 32" "- 28" 16 41016 0])
       (simp_all add: shrink_meter_fields)
  then obtain m' lo' hi' where "animate 41016 0 shrink_meter = Some m'"
    "dbMin (options m') = Fin lo'" "dbMax (options m') = Fin hi'"
    "lo' = min (- 40 + 16 / 1000) (- 32)" "hi' = max (3 - 16 / 1000) (- 28)"
    by auto
  then show ?thesis
    by (simp add: shrink_meter_fields)
qed

section \<open>Manual range, range reset and the peak tracker\<close>

lemma construct_showPeak: "construct [ShowPeak True] = Some peak_meter0"
  using buildScale_default_range [of "DEFAULTS\<lparr>showPeak := True\<rparr>"]
  by (simp add: construct_def Object_assign_def peak_meter0_def meter0_def DEFAULTS_def)

lemma setValue_peak_meter0: "setValue 0 (Fin 0) peak_meter0 = Some peak_meter1"
  by (simp add: setValue_def mapToTarget_def peak_meter1_def peak_meter0_def meter0_def DEFAULTS_def)

lemma animate_peak_meter1: "animate 0 1000 peak_meter1 = Some peaked_meter"
  by (simp add: animate_def needleBallistics_def pinToScale_def updateClipState_def
      peakHold_def peakCapture_def peakExpire_def peakMove_def Let_def
      peaked_meter_def peak_meter1_def peak_meter0_def meter0_def DEFAULTS_def)










section \<open>No validation of the configuration\<close>

text \<open>
  Claim C2, as stated, fails: nothing is rejected. Construction with
  \<open>dbMin = dbMax = noiseFloor = 3\<close> returns the meter \<open>flat_meter\<close>, and on it
  \<open>setValue(5)\<close> sets the target to \<open>NaN\<close>.
\<close>

theorem configuration_counterexample:
  "construct [DbMin (Fin 3), DbMax (Fin 3), NoiseFloor (Fin 3)] = Some flat_meter \<and>
   setValue 0 (Fin 5) flat_meter = Some (flat_meter\<lparr>targetDb := NaN\<rparr>)"
  by (simp add: construct_def Object_assign_def buildScale_def buildDefaultScale_def
      tick_loop.simps setValue_def mapToTarget_def signed_inf_def Let_def
      Math_min_def Math_max_def flat_meter_def DEFAULTS_def)

text \<open>
  Claim C2, amended. Construction, \<open>setOptions\<close> and \<open>setRange\<close> raise no error and
  reject nothing: finite \<open>dbMin\<close>, \<open>dbMax\<close> (below \<open>2 ^ 53\<close> in magnitude) and
  \<open>noiseFloor\<close> are accepted in any order and with any of them equal, and the values are
  in the options when the call returns.
\<close>

theorem configuration_not_validated:
  assumes "\<bar>lo\<bar> < 2 ^ 53" and "\<bar>hi\<bar> < 2 ^ 53"
  shows "(\<exists>m'. construct [DbMin (Fin lo), DbMax (Fin hi), NoiseFloor (Fin nf)] = Some m' \<and>
            dbMin (options m') = Fin lo \<and> dbMax (options m') = Fin hi \<and>
            noiseFloor (options m') = Fin nf) \<and>
         (\<exists>m'. setOptions [DbMin (Fin lo), DbMax (Fin hi), NoiseFloor (Fin nf)] m = Some m' \<and>
            dbMin (options m') = Fin lo \<and> dbMax (options m') = Fin hi \<and>
            noiseFloor (options m') = Fin nf) \<and>
         (\<exists>m'. setRange (Fin lo) (Fin hi) m = Some m' \<and>
            dbMin (options m') = Fin lo \<and> dbMax (options m') = Fin hi)"
proof (intro conjI)
  obtain drawn where "buildScale (Object_assign DEFAULTS
      [DbMin (Fin lo), DbMax (Fin hi), NoiseFloor (Fin nf)]) = Some drawn"
    using buildScale_returns [of "Object_assign DEFAULTS
      [DbMin (Fin lo), DbMax (Fin hi), NoiseFloor (Fin nf)]" lo hi]
    by (auto simp add: Object_assign_def)
  then show "\<exists>m'. construct [DbMin (Fin lo), DbMax (Fin hi), NoiseFloor (Fin nf)] = Some m' \<and>
      dbMin (options m') = Fin lo \<and> dbMax (options m') = Fin hi \<and>
      noiseFloor (options m') = Fin nf"
    by (simp add: construct_def Let_def) (simp add: Object_assign_def)
next
  show "\<exists>m'. setOptions [DbMin (Fin lo), DbMax (Fin hi), NoiseFloor (Fin nf)] m = Some m' \<and>
      dbMin (options m') = Fin lo \<and> dbMax (options m') = Fin hi \<and>
      noiseFloor (options m') = Fin nf"
    by (simp add: setOptions_def Object_assign_def Let_def)
next
  show "\<exists>m'. setRange (Fin lo) (Fin hi) m = Some m' \<and>
      dbMin (options m') = Fin lo \<and> dbMax (options m') = Fin hi"
    using setRange_Fin [of lo hi m] by auto
qed

theorem configuration_not_validated_witness:
  "\<bar>3 :: real\<bar> < 2 ^ 53 \<and> \<bar>- 20 :: real\<bar> < 2 ^ 53 \<and>
   (\<exists>m'. construct [DbMin (Fin 3), DbMax (Fin (- 20)), NoiseFloor (Fin (- 20))] = Some m' \<and>
      dbMin (options m') = Fin 3 \<and> dbMax (options m') = Fin (- 20) \<and>
      noiseFloor (options m') = Fin (- 20)) \<and>
   (\<exists>m'. setRange (Fin 3) (Fin (- 20)) meter0 = Some m' \<and>
      dbMin (options m') = Fin 3 \<and> dbMax (options m') = Fin (- 20))"
  using configuration_not_validated [of 3 "- 20" "- 20" meter0]
  by simp

section \<open>Silence under auto-range\<close>

text \<open>
  \<open>setAmplitude(0)\<close> passes the silence value \<open>-Infinity\<close> to \<open>setValue\<close>. With
  auto-range on it becomes a sample, the desired lower bound is \<open>-Infinity\<close>, and
  \<open>setRange(-Infinity, dbMax)\<close> rebuilds the scale with a tick loop that starts at
  \<open>-Infinity\<close> and never advances.
\<close>

lemma tick_loop_from_NegInfinity:
  "tick_loop NegInfinity (Fin s) (Fin hi) majorSet drawn = None"
proof (rule ccontr)
  assume "tick_loop NegInfinity (Fin s) (Fin hi) majorSet drawn \<noteq> None"
  then obtain y where y: "tick_loop NegInfinity (Fin s) (Fin hi) majorSet drawn = Some y"
    by auto
  have "NegInfinity = NegInfinity \<longrightarrow> is_fin (Fin s) \<longrightarrow> \<not> NegInfinity \<le> Fin hi"
  proof (rule tick_loop.raw_induct [where P = "\<lambda>d step upper ms dr r.
      d = NegInfinity \<longrightarrow> is_fin step \<longrightarrow> \<not> d \<le> upper", OF _ y])
    fix f d step upper ms dr r
    assume IH: "\<And>d step upper ms dr r. f d step upper ms dr = Some r \<Longrightarrow>
        d = NegInfinity \<longrightarrow> is_fin step \<longrightarrow> \<not> d \<le> upper"
      and eq: "(if d \<le> upper
          then f (d + step) step upper ms (if d \<in> set ms then dr else dr @ [d])
          else Some dr) = Some r"
    show "d = NegInfinity \<longrightarrow> is_fin step \<longrightarrow> \<not> d \<le> upper"
    proof (intro impI notI)
      assume d: "d = NegInfinity" and s: "is_fin step" and le: "d \<le> upper"
      obtain s' where "step = Fin s'" using s by (cases step) auto
      with d have "d + step = NegInfinity" by simp
      with eq le have "f NegInfinity step upper ms (if d \<in> set ms then dr else dr @ [d]) = Some r"
        by simp
      from IH [OF this] s le d show False by simp
    qed
  qed
  then show False by simp
qed

lemma setRange_from_NegInfinity:
  assumes "scalePreset (options m) = None"
  shows "setRange NegInfinity (Fin hi) m = None"
  using assms
  by (simp add: setRange_def rebuildScale_def buildScale_def buildDefaultScale_def
      tick_loop_from_NegInfinity)

lemma autoRangeTrack_silence:
  "autoRangeTrack now NegInfinity auto_meter =
     setRange NegInfinity (Fin 3)
       (auto_meter\<lparr>rangeSamples := [(NegInfinity, now)],
          autoRangeTargetMin := NegInfinity, autoRangeTargetMax := NegInfinity\<rparr>)"
  by (simp add: autoRangeTrack_def Math_min_list_def Math_max_list_def
      Math_min_def Math_max_def minus_number_def Let_def auto_meter_def meter0_def DEFAULTS_def)

text \<open>
  Claim C1 fails on the code at this input. The default configuration with auto-range
  on has \<open>noiseFloor < dbMax\<close>, and \<open>-Infinity\<close> is at or below the noise floor, but
  \<open>setValue(-Infinity)\<close> never returns: no target is set.
\<close>

theorem setValue_silence_never_returns:
  "noiseFloor (options auto_meter) < dbMax (options auto_meter) \<and>
   NegInfinity \<le> noiseFloor (options auto_meter) \<and>
   setValue now NegInfinity auto_meter = None"
proof -
  have "autoRangeTrack now NegInfinity auto_meter = None"
    unfolding autoRangeTrack_silence
    by (rule setRange_from_NegInfinity) (simp add: auto_meter_def meter0_def DEFAULTS_def)
  then show ?thesis
    by (simp add: setValue_def auto_meter_def meter0_def DEFAULTS_def)
qed

text \<open>
  Claim C4 fails on the code at the same input. Auto-range is on and the sample
  \<open>-Infinity\<close> puts the desired lower bound (the least raw value in the window minus
  the margin) below \<open>dbMin\<close>, but the auto-range part of \<open>setValue\<close> never returns from
  the expansion.
\<close>

theorem autoRange_expansion_never_returns:
  "autoRange (options auto_meter) \<and>
   Math_min_list [NegInfinity] - autoRangeMargin (options auto_meter)
     < dbMin (options auto_meter) \<and>
   autoRangeTrack now NegInfinity auto_meter = None"
proof -
  have "autoRangeTrack now NegInfinity auto_meter = None"
    unfolding autoRangeTrack_silence
    by (rule setRange_from_NegInfinity) (simp add: auto_meter_def meter0_def DEFAULTS_def)
  then show ?thesis
    by (simp add: Math_min_list_def Math_min_def minus_number_def
        auto_meter_def meter0_def DEFAULTS_def)
qed

lemma setAmplitude_silence_never_returns: "setAmplitude now (Fin 0) auto_meter = None"
proof -
  have "autoRangeTrack now NegInfinity auto_meter = None"
    unfolding autoRangeTrack_silence
    by (rule setRange_from_NegInfinity) (simp add: auto_meter_def meter0_def DEFAULTS_def)
  then show ?thesis
    by (simp add: setAmplitude_def setValue_def auto_meter_def meter0_def DEFAULTS_def)
qed

end
